theory Spec2Isabelle
  imports Main
begin

section \<open>Errors and settled promises\<close>

text \<open>
  Every thrown exception and every rejected promise of the two source files is a value of
  \<open>error\<close>. The first group are the failures of the file system, of \<open>JSON.parse\<close>, of
  the array spread and of the \<open>proper-lockfile\<close> primitive; \<open>ZkSyncSolcPluginError e\<close> is
  the plugin error thrown at \<open>constants.ts:208\<close>, whose message embeds the text of the
  caught error \<open>e\<close>; \<open>External m\<close> is a rejection of the provider, of the receipt wait or
  of \<open>toBigInt\<close> in the balance helper.
\<close>

datatype error =
    ENOENT
  | EACCES
  | SyntaxError
  | TypeError
  | ELOCKED
  | ENOTACQUIRED
  | ZkSyncSolcPluginError error
  | External string

text \<open>
  An awaited promise has settled: it is rejected with an error (\<open>Inl\<close>) or fulfilled
  with a value (\<open>Inr\<close>). \<open>await p k\<close> is \<open>const x = await p; k x\<close> inside an async
  function: a rejection leaves the function at once.
\<close>

definition await :: "error + 'a \<Rightarrow> ('a \<Rightarrow> error + 'b) \<Rightarrow> error + 'b" where
  "await p k = (case p of Inl e \<Rightarrow> Inl e | Inr x \<Rightarrow> k x)"

text \<open>
  \<open>Promise.all\<close> over an array of settled promises: the values in the order of the array,
  or the rejection of the first rejected element.
\<close>

fun Promise_all :: "(error + 'a) list \<Rightarrow> error + 'a list" where
  "Promise_all [] = Inr []"
| "Promise_all (p # ps) = await p (\<lambda>x. await (Promise_all ps) (\<lambda>xs. Inr (x # xs)))"

text \<open>
  \<open>xs[i]\<close> in JavaScript is \<open>undefined\<close> out of range; \<open>at_index\<close> returns \<open>None\<close>
  there.
\<close>

definition at_index :: "'a list \<Rightarrow> nat \<Rightarrow> 'a option" where
  "at_index xs i = (if i < length xs then Some (xs ! i) else None)"

section \<open>Balance changes of a transaction (\<open>changeEtherBalances\<close>)\<close>

subsection \<open>Data\<close>

text \<open>
  \<open>BigNumberish\<close> of ethers: a bigint (an integral number behaves the same way), or a
  string that \<open>toBigInt\<close> has to parse.
\<close>

datatype BigNumberish = BigInt int | Text string

record TransactionReceipt =
  blockNumber :: int
  gasUsed :: int
  receiptGasPrice :: "int option"

text \<open>
  \<open>receiptGasPrice\<close> is \<open>txReceipt.gasPrice\<close>, \<open>None\<close> when it is \<open>null\<close> or
  \<open>undefined\<close>. In a response, \<open>sender\<close> is the field \<open>from\<close> and \<open>wait\<close> the settled
  result of \<open>txResponse.wait()\<close>, the same at every call.
\<close>

record TransactionResponse =
  sender :: string
  gasPrice :: int
  wait :: "error + TransactionReceipt"

record BalanceChangeOptions =
  includeFee :: "bool option"

record Overrides =
  maxFeePerGas :: "BigNumberish option"

text \<open>
  The external collaborators of the helper: \<open>getAddressOf\<close> of \<open>./misc/account\<close>, the
  provider's balance query \<open>getBalance address blockHeight\<close>, and the string case of
  ethers' \<open>toBigInt\<close>.
\<close>

record 'acct ledger =
  getAddressOf :: "'acct \<Rightarrow> error + string"
  getBalance :: "string \<Rightarrow> int \<Rightarrow> error + int"
  parseBigInt :: "string \<Rightarrow> error + int"

subsection \<open>JavaScript operators used by the helper\<close>

text \<open>
  The truthiness test of \<open>c ? a : b\<close> on a \<open>BigNumberish\<close>: \<open>0n\<close> and the empty string
  are falsy (and so are \<open>null\<close> and \<open>undefined\<close>, the \<open>None\<close> of an optional value).
\<close>

fun truthy :: "BigNumberish \<Rightarrow> bool" where
  "truthy (BigInt n) = (n \<noteq> 0)"
| "truthy (Text s) = (s \<noteq> [])"

definition toBigInt :: "'acct ledger \<Rightarrow> BigNumberish \<Rightarrow> error + int" where
  "toBigInt env v = (case v of BigInt n \<Rightarrow> Inr n | Text s \<Rightarrow> parseBigInt env s)"

text \<open>\<open>options?.includeFee\<close> and \<open>overrides?.maxFeePerGas\<close>.\<close>

definition includeFee_of :: "BalanceChangeOptions option \<Rightarrow> bool option" where
  "includeFee_of options = (case options of None \<Rightarrow> None | Some opts \<Rightarrow> includeFee opts)"

definition maxFeePerGas_of :: "Overrides option \<Rightarrow> BigNumberish option" where
  "maxFeePerGas_of overrides = (case overrides of None \<Rightarrow> None | Some ov \<Rightarrow> maxFeePerGas ov)"

subsection \<open>The helper\<close>

text \<open>
  Modelled from the spec: \<open>getBalances\<close> of \<open>./misc/balance\<close> is not among the sources.
  For each account, in order, it samples the balance of the account's address at the given
  height through the ledger-snapshot reader; one failed read fails the whole call.
\<close>

definition getBalances :: "'acct ledger \<Rightarrow> 'acct list \<Rightarrow> int \<Rightarrow> error + int list" where
  "getBalances env accounts height =
     Promise_all (map (\<lambda>account.
       await (getAddressOf env account) (\<lambda>address. getBalance env address height)) accounts)"

text \<open>
  \<open>getTxFees\<close>, lines 98 to 120. \<open>gasPriceOf\<close> is the conditional expression of lines
  108 to 110, \<open>txFeeOf\<close> the callback given to \<open>accounts.map\<close>.
\<close>

definition gasPriceOf ::
  "Overrides option \<Rightarrow> TransactionReceipt \<Rightarrow> TransactionResponse \<Rightarrow> BigNumberish" where
  "gasPriceOf overrides txReceipt txResponse =
     (let fallback = (case receiptGasPrice txReceipt of
                        Some g \<Rightarrow> BigInt g
                      | None \<Rightarrow> BigInt (gasPrice txResponse))
      in case maxFeePerGas_of overrides of
           Some v \<Rightarrow> if truthy v then v else fallback
         | None \<Rightarrow> fallback)"

definition txFeeOf ::
  "'acct ledger \<Rightarrow> TransactionResponse \<Rightarrow> BalanceChangeOptions option \<Rightarrow> Overrides option
     \<Rightarrow> 'acct \<Rightarrow> error + int" where
  "txFeeOf env txResponse options overrides account =
     (if includeFee_of options \<noteq> Some True then
        await (getAddressOf env account) (\<lambda>address.
          if address = sender txResponse then
            await (wait txResponse) (\<lambda>txReceipt.
              let gasPrice = gasPriceOf overrides txReceipt txResponse;
                  gasUsed = gasUsed txReceipt
              in await (toBigInt env gasPrice) (\<lambda>p. let txFee = p * gasUsed in Inr txFee))
          else Inr 0)
      else Inr 0)"

definition getTxFees ::
  "'acct ledger \<Rightarrow> 'acct list \<Rightarrow> TransactionResponse \<Rightarrow> BalanceChangeOptions option
     \<Rightarrow> Overrides option \<Rightarrow> error + int list" where
  "getTxFees env accounts txResponse options overrides =
     Promise_all (map (txFeeOf env txResponse options overrides) accounts)"

text \<open>
  \<open>getBalanceChanges\<close>, lines 79 to 96. The callback of the last \<open>map\<close> reads
  \<open>txFees[ind]\<close> and \<open>balancesBefore[ind]\<close>; adding \<open>undefined\<close> to a bigint throws a
  \<open>TypeError\<close>.
\<close>

definition getBalanceChanges ::
  "'acct ledger \<Rightarrow> error + TransactionResponse \<Rightarrow> 'acct list \<Rightarrow> BalanceChangeOptions option
     \<Rightarrow> Overrides option \<Rightarrow> error + int list" where
  "getBalanceChanges env transaction accounts options overrides =
     await transaction (\<lambda>txResponse.
     await (wait txResponse) (\<lambda>txReceipt.
     let txBlockNumber = blockNumber txReceipt in
     await (getBalances env accounts txBlockNumber) (\<lambda>balancesAfter.
     await (getBalances env accounts (txBlockNumber - 1)) (\<lambda>balancesBefore.
     await (getTxFees env accounts txResponse options overrides) (\<lambda>txFees.
     Promise_all (map (\<lambda>(ind, balance).
       (case (at_index txFees ind, at_index balancesBefore ind) of
          (Some txFee, Some balanceBefore) \<Rightarrow> Inr (balance + txFee - balanceBefore)
        | _ \<Rightarrow> Inl TypeError)) (enumerate 0 balancesAfter)))))))"

section \<open>The missing-libraries file (\<open>writeLibrariesToFile\<close>)\<close>

subsection \<open>Files, locks and the log of calls\<close>

datatype json =
    JNull
  | JBool bool
  | JNumber int
  | JString string
  | JArray "json list"
  | JObject "(string \<times> json) list"

text \<open>
  The text of a file is kept up to \<open>JSON.parse\<close>: it is the serialisation of a JSON value
  (what \<open>JSON.stringify\<close> produces, and the literal \<open>'[]'\<close> for the empty array), or text
  that \<open>JSON.parse\<close> rejects.
\<close>

datatype filetext = JSON json | Malformed string

definition JSON_stringify :: "json \<Rightarrow> filetext" where
  "JSON_stringify v = JSON v"

definition JSON_parse :: "filetext \<Rightarrow> error + json" where
  "JSON_parse t = (case t of JSON v \<Rightarrow> Inr v | Malformed s \<Rightarrow> Inl SyntaxError)"

text \<open>
  The calls \<open>constants.ts\<close> makes on the file system and on the lock: \<open>OutputFile\<close> is
  \<open>fse.outputFile\<close> or \<open>fse.outputFileSync\<close>, a write of the whole content to the path
  itself; \<open>Move\<close> is \<open>fse.move\<close>, the rename of a temporary file over its target, which
  only \<open>download\<close> uses.
\<close>

datatype event =
    PathExists string
  | OutputFile string filetext
  | ReadJSON string
  | Move string string
  | Lock string
  | Unlock string

text \<open>
  The world of one process: the files; the paths whose reads or writes the system
  refuses; the locks this process holds; for each path, the number of coming lock
  attempts that a lock of another process still defeats; the calls made so far.
\<close>

record world =
  files :: "string \<rightharpoonup> filetext"
  unreadable :: "string set"
  unwritable :: "string set"
  held :: "string set"
  contended :: "string \<Rightarrow> nat"
  calls :: "event list"

type_synonym 'a io = "world \<Rightarrow> (error + 'a) \<times> world"

definition returnIO :: "'a \<Rightarrow> 'a io" where
  "returnIO x w = (Inr x, w)"

definition throwIO :: "error \<Rightarrow> 'a io" where
  "throwIO e w = (Inl e, w)"

text \<open>\<open>bindIO m k\<close> is \<open>const x = await m; k x\<close>: a failure of \<open>m\<close> skips \<open>k\<close>.\<close>

definition bindIO :: "'a io \<Rightarrow> ('a \<Rightarrow> 'b io) \<Rightarrow> 'b io" where
  "bindIO m k w = (case m w of (Inl e, w1) \<Rightarrow> (Inl e, w1) | (Inr x, w1) \<Rightarrow> k x w1)"

text \<open>
  \<open>try { body } catch (e) { handler e } finally { cleanup }\<close>: the handler runs when the
  body throws; the cleanup runs in every case, and when it throws its error replaces the
  outcome of the body or of the handler.
\<close>

definition try_catch_finally :: "'a io \<Rightarrow> (error \<Rightarrow> 'a io) \<Rightarrow> unit io \<Rightarrow> 'a io" where
  "try_catch_finally body handler cleanup w =
     (case body w of (r1, w1) \<Rightarrow>
        (case (case r1 of Inl e \<Rightarrow> handler e w1 | Inr x \<Rightarrow> (Inr x, w1)) of (r2, w2) \<Rightarrow>
           (case cleanup w2 of
              (Inl e, w3) \<Rightarrow> (Inl e, w3)
            | (Inr u, w3) \<Rightarrow> (r2, w3))))"

definition logged :: "event \<Rightarrow> world \<Rightarrow> world" where
  "logged ev w = w\<lparr>calls := calls w @ [ev]\<rparr>"

text \<open>The calls a computation adds to the log when it runs in \<open>w\<close>.\<close>

definition calls_of :: "'a io \<Rightarrow> world \<Rightarrow> event list" where
  "calls_of m w = drop (length (calls w)) (calls (snd (m w)))"

text \<open>
  \<open>emits P m\<close>: wherever it runs, \<open>m\<close> only appends to the log, and only calls that
  satisfy \<open>P\<close>.
\<close>

definition emits :: "(event \<Rightarrow> bool) \<Rightarrow> 'a io \<Rightarrow> bool" where
  "emits P m = (\<forall>w. \<exists>evs. calls (snd (m w)) = calls w @ evs \<and> list_all P evs)"

text \<open>A call on the path \<open>p\<close> other than an unlock: no rename, and no other path.\<close>

definition on_target :: "string \<Rightarrow> event \<Rightarrow> bool" where
  "on_target p ev =
     (case ev of
        PathExists q \<Rightarrow> q = p
      | OutputFile q _ \<Rightarrow> q = p
      | ReadJSON q \<Rightarrow> q = p
      | Lock q \<Rightarrow> q = p
      | Move _ _ \<Rightarrow> False
      | Unlock _ \<Rightarrow> False)"

subsection \<open>The primitives of \<open>fs-extra\<close> and \<open>proper-lockfile\<close>\<close>

definition pathExists :: "string \<Rightarrow> bool io" where
  "pathExists p w = (Inr (files w p \<noteq> None), logged (PathExists p) w)"

definition outputFile :: "string \<Rightarrow> filetext \<Rightarrow> unit io" where
  "outputFile p data w =
     (if p \<in> unwritable w then (Inl EACCES, logged (OutputFile p data) w)
      else (Inr (), logged (OutputFile p data) (w\<lparr>files := (files w)(p \<mapsto> data)\<rparr>)))"

definition readJSON :: "string \<Rightarrow> json io" where
  "readJSON p w =
     ((case files w p of
         None \<Rightarrow> Inl ENOENT
       | Some t \<Rightarrow> if p \<in> unreadable w then Inl EACCES else JSON_parse t),
      logged (ReadJSON p) w)"

text \<open>
  \<open>lockfile.lock(p, { retries: { retries: n, ... } })\<close>: the path must exist; a lock this
  process already holds, or a lock of another process that outlasts the first attempt and
  the \<open>n\<close> retries, rejects with \<open>ELOCKED\<close>. Every attempt uses up one unit of the
  contention.
\<close>

definition lockfile_lock :: "string \<Rightarrow> nat \<Rightarrow> unit io" where
  "lockfile_lock p retries w =
     (if files w p = None then (Inl ENOENT, logged (Lock p) w)
      else if p \<in> held w then (Inl ELOCKED, logged (Lock p) w)
      else if retries < contended w p then
        (Inl ELOCKED,
         logged (Lock p) (w\<lparr>contended := (contended w)(p := contended w p - (retries + 1))\<rparr>))
      else
        (Inr (),
         logged (Lock p) (w\<lparr>held := insert p (held w), contended := (contended w)(p := 0)\<rparr>)))"

text \<open>
  \<open>lockfile.unlock(p)\<close>: the path must exist, and a lock this process does not hold
  rejects with \<open>ENOTACQUIRED\<close>.
\<close>

definition lockfile_unlock :: "string \<Rightarrow> unit io" where
  "lockfile_unlock p w =
     (if files w p = None then (Inl ENOENT, logged (Unlock p) w)
      else if p \<notin> held w then (Inl ENOTACQUIRED, logged (Unlock p) w)
      else (Inr (), logged (Unlock p) (w\<lparr>held := held w - {p}\<rparr>)))"

text \<open>
  The spread \<open>[...v]\<close> of a parsed value: the elements of an array, the characters of a
  string, and a \<open>TypeError\<close> for a value that is not iterable.
\<close>

definition spread :: "json \<Rightarrow> json list io" where
  "spread v =
     (case v of
        JArray xs \<Rightarrow> returnIO xs
      | JString s \<Rightarrow> returnIO (map (\<lambda>c. JString [c]) s)
      | _ \<Rightarrow> throwIO TypeError)"

subsection \<open>The two functions\<close>

text \<open>\<open>getOrCreateLibraries\<close>, lines 188 to 196.\<close>

definition getOrCreateLibraries :: "string \<Rightarrow> json io" where
  "getOrCreateLibraries filePath =
     bindIO (pathExists filePath) (\<lambda>exists.
     bindIO (if \<not> exists then outputFile filePath (JSON (JArray [])) else returnIO ()) (\<lambda>_.
     readJSON filePath))"

text \<open>
  \<open>writeLibrariesToFile\<close>, lines 199 to 212. \<open>readMergeWrite\<close> is the part of the
  \<open>try\<close> block that follows the lock (lines 204 to 206), \<open>tryBlock\<close> the whole block
  (lines 201 to 206).
\<close>

definition readMergeWrite :: "string \<Rightarrow> json list \<Rightarrow> unit io" where
  "readMergeWrite filePath libraries =
     bindIO (getOrCreateLibraries filePath) (\<lambda>existingLibraries.
     bindIO (spread existingLibraries) (\<lambda>existing.
     let combinedLibraries = existing @ libraries in
     outputFile filePath (JSON_stringify (JArray combinedLibraries))))"

definition tryBlock :: "string \<Rightarrow> json list \<Rightarrow> unit io" where
  "tryBlock filePath libraries =
     bindIO (getOrCreateLibraries filePath) (\<lambda>existingLibraries.
     bindIO (lockfile_lock filePath 10) (\<lambda>_.
     readMergeWrite filePath libraries))"

definition writeLibrariesToFile :: "string \<Rightarrow> json list \<Rightarrow> unit io" where
  "writeLibrariesToFile filePath libraries =
     try_catch_finally
       (tryBlock filePath libraries)
       (\<lambda>e. throwIO (ZkSyncSolcPluginError e))
       (lockfile_unlock filePath)"

subsection \<open>What the specification asks of the write\<close>

text \<open>
  The specification's step 5: the new content is written to a temporary path, which is
  then renamed over the target, and the target itself is never written in place.
\<close>

definition spec_atomic_write :: "string \<Rightarrow> event list \<Rightarrow> bool" where
  "spec_atomic_write target evs =
     (list_ex (\<lambda>ev. case ev of
                 Move tmp dst \<Rightarrow> dst = target \<and> tmp \<noteq> target
                   \<and> list_ex (\<lambda>ev'. case ev' of OutputFile q _ \<Rightarrow> q = tmp | _ \<Rightarrow> False) evs
               | _ \<Rightarrow> False) evs
      \<and> \<not> list_ex (\<lambda>ev. case ev of OutputFile q _ \<Rightarrow> q = target | _ \<Rightarrow> False) evs)"

text \<open>A write in place: every write of the list goes to the target and nothing is renamed.\<close>

definition in_place :: "string \<Rightarrow> event list \<Rightarrow> bool" where
  "in_place target evs =
     list_all (\<lambda>ev. case ev of OutputFile q _ \<Rightarrow> q = target | Move _ _ \<Rightarrow> False | _ \<Rightarrow> True) evs"

text \<open>The values the spread accepts, and a file that exists while its lock is held.\<close>

definition iterable :: "json \<Rightarrow> bool" where
  "iterable v = (case v of JArray xs \<Rightarrow> True | JString s \<Rightarrow> True | _ \<Rightarrow> False)"

definition locked_file :: "string \<Rightarrow> world \<Rightarrow> bool" where
  "locked_file p w = (p \<in> held w \<and> files w p \<noteq> None)"

section \<open>Example data\<close>

text \<open>
  The fee scenario of the specification's testable properties: the sender \<open>0xS\<close> holds
  1000 before block 7 and 950 after it, the recipient \<open>0xR\<close> 500 and 570; the transaction
  used 2 gas at a price of 10, a fee of 20.
\<close>

definition example_ledger :: "string ledger" where
  "example_ledger =
     \<lparr>getAddressOf = Inr,
      getBalance = (\<lambda>address height.
        if address = ''0xS'' then (if height = 7 then Inr 950 else Inr 1000)
        else (if height = 7 then Inr 570 else Inr 500)),
      parseBigInt = (\<lambda>s. Inl (External ''invalid BigNumberish string''))\<rparr>"

definition example_receipt :: TransactionReceipt where
  "example_receipt = \<lparr>blockNumber = 7, gasUsed = 2, receiptGasPrice = Some 10\<rparr>"

definition example_tx :: TransactionResponse where
  "example_tx = \<lparr>sender = ''0xS'', gasPrice = 5, wait = Inr example_receipt\<rparr>"

text \<open>
  Worlds for the missing-libraries file: no file at all; the file \<open>libs.json\<close> with a
  given text; the file with an empty array while the lock of another process defeats the
  next eleven attempts on every path; the file with an empty array while this process
  already holds its lock, taken by another call.
\<close>

definition fresh_world :: world where
  "fresh_world =
     \<lparr>files = Map.empty, unreadable = {}, unwritable = {}, held = {},
      contended = (\<lambda>p. 0), calls = []\<rparr>"

definition registry_world :: "filetext \<Rightarrow> world" where
  "registry_world t = fresh_world\<lparr>files := [''libs.json'' \<mapsto> t]\<rparr>"

definition busy_world :: world where
  "busy_world = (registry_world (JSON (JArray [])))\<lparr>contended := (\<lambda>p. 11)\<rparr>"

definition held_world :: world where
  "held_world = (registry_world (JSON (JArray [])))\<lparr>held := {''libs.json''}\<rparr>"

section \<open>Properties of the balance helper\<close>

subsection \<open>Settled promises\<close>

lemma await_Inr_iff: "await p k = Inr y \<longleftrightarrow> (\<exists>x. p = Inr x \<and> k x = Inr y)"
  by (cases p) (simp_all add: await_def)

lemma await_Inr [simp]: "await (Inr x) k = k x"
  by (simp add: await_def)

lemma await_Inl [simp]: "await (Inl e) k = Inl e"
  by (simp add: await_def)

lemma Promise_all_map_Inr:
  "Promise_all (map f xs) = Inr ys \<Longrightarrow>
     length ys = length xs \<and> (\<forall>i<length xs. f (xs ! i) = Inr (ys ! i))"
proof (induction xs arbitrary: ys)
  case Nil
  then show ?case by simp
next
  case (Cons x xs)
  from Cons.prems obtain y zs where y: "f x = Inr y" and zs: "Promise_all (map f xs) = Inr zs"
    and ys: "ys = y # zs"
    by (auto simp: await_Inr_iff)
  from Cons.IH [OF zs] have len: "length zs = length xs"
    and nth: "\<And>i. i < length xs \<Longrightarrow> f (xs ! i) = Inr (zs ! i)" by auto
  show ?case
  proof (intro conjI allI impI)
    show "length ys = length (x # xs)" using ys len by simp
  next
    fix i assume "i < length (x # xs)"
    then show "f ((x # xs) ! i) = Inr (ys ! i)"
      using y nth ys by (cases i) auto
  qed
qed

lemma Promise_all_map_eq:
  "length ys = length xs \<Longrightarrow> (\<And>i. i < length xs \<Longrightarrow> f (xs ! i) = Inr (ys ! i)) \<Longrightarrow>
     Promise_all (map f xs) = Inr ys"
proof (induction xs arbitrary: ys)
  case Nil
  then show ?case by simp
next
  case (Cons x xs)
  from Cons.prems(1) obtain y zs where ys: "ys = y # zs" and len: "length zs = length xs"
    by (cases ys) auto
  have "f x = Inr y" using Cons.prems(2) [of 0] ys by simp
  moreover have "Promise_all (map f xs) = Inr zs"
  proof (rule Cons.IH [OF len])
    fix i assume "i < length xs"
    then show "f (xs ! i) = Inr (zs ! i)" using Cons.prems(2) [of "Suc i"] ys by simp
  qed
  ultimately show ?case using ys by simp
qed

lemma txFeeOf_cases:
  "txFeeOf env tx options overrides account = Inr fee \<Longrightarrow>
     (if includeFee_of options \<noteq> Some True \<and> getAddressOf env account = Inr (sender tx)
      then \<exists>rc p. wait tx = Inr rc \<and> toBigInt env (gasPriceOf overrides rc tx) = Inr p
             \<and> fee = p * gasUsed rc
      else fee = 0)"
  by (auto simp: txFeeOf_def await_Inr_iff Let_def split: if_splits)

lemmas example_defs = example_ledger_def example_tx_def example_receipt_def

lemmas balance_defs = getBalanceChanges_def getBalances_def getTxFees_def txFeeOf_def
  gasPriceOf_def toBigInt_def includeFee_of_def maxFeePerGas_of_def at_index_def Let_def

lemma example_default:
  "getBalanceChanges example_ledger (Inr example_tx) [''0xS'', ''0xR''] None None
     = Inr [-30, 70]"
  by (simp add: example_defs balance_defs)

lemma example_includeFee:
  "getBalanceChanges example_ledger (Inr example_tx) [''0xS'', ''0xR'']
     (Some \<lparr>includeFee = Some True\<rparr>) None = Inr [-50, 70]"
  by (simp add: example_defs balance_defs)

subsection \<open>The deltas\<close>

text \<open>
  C2. Let \<open>B\<close> be the block number of the receipt. When the balances of the accounts can
  be read at \<open>B\<close> (\<open>after\<close>) and at \<open>B - 1\<close> (\<open>before\<close>) and the fees can be computed,
  \<open>getBalanceChanges\<close> returns one delta per account, in the order of the accounts, and
  the delta of account \<open>i\<close> is \<open>after[i] - before[i] + fees[i]\<close>, where \<open>after[i]\<close> is
  the balance of the address of account \<open>i\<close> at height \<open>B\<close> and \<open>before[i]\<close> its balance
  at height \<open>B - 1\<close>.
\<close>

theorem getBalanceChanges_deltas:
  assumes w: "wait tx = Inr rc"
    and a: "getBalances env accounts (blockNumber rc) = Inr after"
    and b: "getBalances env accounts (blockNumber rc - 1) = Inr before"
    and f: "getTxFees env accounts tx options overrides = Inr fees"
  shows "\<exists>deltas. getBalanceChanges env (Inr tx) accounts options overrides = Inr deltas
           \<and> length deltas = length accounts
           \<and> (\<forall>i<length accounts.
                deltas ! i = after ! i - before ! i + fees ! i
              \<and> await (getAddressOf env (accounts ! i))
                       (\<lambda>address. getBalance env address (blockNumber rc)) = Inr (after ! i)
              \<and> await (getAddressOf env (accounts ! i))
                       (\<lambda>address. getBalance env address (blockNumber rc - 1)) = Inr (before ! i))"
proof -
  let ?n = "length accounts"
  from a have la: "length after = ?n"
    and na: "\<And>i. i < ?n \<Longrightarrow> await (getAddressOf env (accounts ! i))
                       (\<lambda>address. getBalance env address (blockNumber rc)) = Inr (after ! i)"
    unfolding getBalances_def by (auto dest: Promise_all_map_Inr)
  from b have lb: "length before = ?n"
    and nb: "\<And>i. i < ?n \<Longrightarrow> await (getAddressOf env (accounts ! i))
                       (\<lambda>address. getBalance env address (blockNumber rc - 1)) = Inr (before ! i)"
    unfolding getBalances_def by (auto dest: Promise_all_map_Inr)
  from f have lf: "length fees = ?n"
    unfolding getTxFees_def by (auto dest: Promise_all_map_Inr)
  define deltas where "deltas = map (\<lambda>i. after ! i + fees ! i - before ! i) [0..<?n]"
  have "Promise_all (map (\<lambda>(ind, balance).
       (case (at_index fees ind, at_index before ind) of
          (Some txFee, Some balanceBefore) \<Rightarrow> Inr (balance + txFee - balanceBefore)
        | _ \<Rightarrow> Inl TypeError)) (enumerate 0 after)) = Inr deltas"
    by (rule Promise_all_map_eq)
       (simp_all add: deltas_def la lb lf at_index_def nth_enumerate_eq)
  then have "getBalanceChanges env (Inr tx) accounts options overrides = Inr deltas"
    by (simp add: getBalanceChanges_def w a b f Let_def)
  moreover have "length deltas = ?n" by (simp add: deltas_def)
  moreover have "\<forall>i<?n. deltas ! i = after ! i - before ! i + fees ! i"
    by (simp add: deltas_def)
  ultimately show ?thesis using na nb by auto
qed

theorem getBalanceChanges_deltas_witness:
  "wait example_tx = Inr example_receipt
   \<and> getBalances example_ledger [''0xS'', ''0xR''] (blockNumber example_receipt) = Inr [950, 570]
   \<and> getBalances example_ledger [''0xS'', ''0xR''] (blockNumber example_receipt - 1)
       = Inr [1000, 500]
   \<and> getTxFees example_ledger [''0xS'', ''0xR''] example_tx None None = Inr [20, 0]
   \<and> getBalanceChanges example_ledger (Inr example_tx) [''0xS'', ''0xR''] None None
       = Inr [950 - 1000 + 20, 570 - 500 + 0]"
  using getBalanceChanges_deltas [of example_tx example_receipt example_ledger
      "[''0xS'', ''0xR'']" "[950, 570]" "[1000, 500]" None None "[20, 0]"]
  by (simp add: example_defs balance_defs)

subsection \<open>Who is charged the fee\<close>

text \<open>
  C3. In the list \<open>getTxFees\<close> returns, the entry of an account is the full fee, the gas
  used times the gas price \<open>gasPriceOf\<close> selects, exactly when \<open>includeFee\<close> is not
  \<open>true\<close> and the address of the account is the sender of the transaction; every other
  entry is zero. In the example the sender's delta is \<open>950 - 1000 + 20 = -30\<close> by default
  and \<open>950 - 1000 + 0 = -50\<close> with \<open>includeFee: true\<close>; the recipient's delta is 70 in
  both cases.
\<close>

theorem getTxFees_attribution:
  "(getTxFees env accounts tx options overrides = Inr fees \<and> i < length accounts \<longrightarrow>
     length fees = length accounts \<and>
     (if includeFee_of options \<noteq> Some True \<and> getAddressOf env (accounts ! i) = Inr (sender tx)
      then \<exists>rc p. wait tx = Inr rc \<and> toBigInt env (gasPriceOf overrides rc tx) = Inr p
             \<and> fees ! i = p * gasUsed rc
      else fees ! i = 0))
   \<and> getBalanceChanges example_ledger (Inr example_tx) [''0xS'', ''0xR''] None None
       = Inr [950 - 1000 + 20, 570 - 500 + 0]
   \<and> getBalanceChanges example_ledger (Inr example_tx) [''0xS'', ''0xR'']
       (Some \<lparr>includeFee = Some True\<rparr>) None = Inr [950 - 1000 + 0, 570 - 500 + 0]"
proof (intro conjI impI)
  assume h: "getTxFees env accounts tx options overrides = Inr fees \<and> i < length accounts"
  then have all: "Promise_all (map (txFeeOf env tx options overrides) accounts) = Inr fees"
    and i: "i < length accounts"
    by (simp_all add: getTxFees_def)
  from Promise_all_map_Inr [OF all] i
  have len: "length fees = length accounts"
    and fee: "txFeeOf env tx options overrides (accounts ! i) = Inr (fees ! i)"
    by simp_all
  from len show "length fees = length accounts" .
  from fee show "if includeFee_of options \<noteq> Some True \<and> getAddressOf env (accounts ! i) = Inr (sender tx)
      then \<exists>rc p. wait tx = Inr rc \<and> toBigInt env (gasPriceOf overrides rc tx) = Inr p
             \<and> fees ! i = p * gasUsed rc
      else fees ! i = 0"
    by (rule txFeeOf_cases)
next
  show "getBalanceChanges example_ledger (Inr example_tx) [''0xS'', ''0xR''] None None
       = Inr [950 - 1000 + 20, 570 - 500 + 0]"
    using example_default by simp
next
  show "getBalanceChanges example_ledger (Inr example_tx) [''0xS'', ''0xR'']
       (Some \<lparr>includeFee = Some True\<rparr>) None = Inr [950 - 1000 + 0, 570 - 500 + 0]"
    using example_includeFee by simp
qed

theorem getTxFees_attribution_witness:
  "getTxFees example_ledger [''0xS'', ''0xR''] example_tx None None = Inr [20, 0]
   \<and> (1::nat) < length [''0xS'', ''0xR'']
   \<and> length [20, 0 :: int] = length [''0xS'', ''0xR'']
   \<and> getAddressOf example_ledger ([''0xS'', ''0xR''] ! 1) \<noteq> Inr (sender example_tx)
   \<and> [20, 0 :: int] ! 1 = 0"
  using getTxFees_attribution [of example_ledger "[''0xS'', ''0xR'']" example_tx None None "[20, 0]" 1]
  by (simp add: example_defs balance_defs)

subsection \<open>The gas price of the fee\<close>

text \<open>
  C7, as the code has it. For the sender's entry, the gas price is the override
  \<open>maxFeePerGas\<close> when it is given and truthy (a bigint other than zero, or a non-empty
  string, which \<open>toBigInt\<close> must parse); when the override is absent, zero or the empty
  string, it is the gas price of the receipt, and the declared gas price of the
  transaction when the receipt has none.
\<close>

theorem getTxFees_gas_price:
  assumes "getTxFees env accounts tx options overrides = Inr fees"
    and "i < length accounts"
    and "includeFee_of options \<noteq> Some True"
    and "getAddressOf env (accounts ! i) = Inr (sender tx)"
    and "wait tx = Inr rc"
  shows "(\<forall>n. maxFeePerGas_of overrides = Some (BigInt n) \<and> n \<noteq> 0 \<longrightarrow>
            fees ! i = gasUsed rc * n)
       \<and> (\<forall>s. maxFeePerGas_of overrides = Some (Text s) \<and> s \<noteq> [] \<longrightarrow>
            (\<exists>p. parseBigInt env s = Inr p \<and> fees ! i = gasUsed rc * p))
       \<and> (maxFeePerGas_of overrides = None \<or> maxFeePerGas_of overrides = Some (BigInt 0)
            \<or> maxFeePerGas_of overrides = Some (Text []) \<longrightarrow>
            fees ! i = gasUsed rc * (case receiptGasPrice rc of Some g \<Rightarrow> g | None \<Rightarrow> gasPrice tx))"
proof -
  from assms(1) have "Promise_all (map (txFeeOf env tx options overrides) accounts) = Inr fees"
    by (simp add: getTxFees_def)
  from Promise_all_map_Inr [OF this] assms(2)
  have "txFeeOf env tx options overrides (accounts ! i) = Inr (fees ! i)"
    by simp
  from txFeeOf_cases [OF this] assms(3,4,5)
  obtain p where p: "toBigInt env (gasPriceOf overrides rc tx) = Inr p"
    and fee: "fees ! i = p * gasUsed rc"
    by auto
  show ?thesis
    using p fee
    by (auto simp: gasPriceOf_def toBigInt_def split: option.splits)
qed

theorem getTxFees_gas_price_witness:
  "getTxFees example_ledger [''0xS'', ''0xR''] example_tx None
       (Some \<lparr>maxFeePerGas = Some (BigInt 3)\<rparr>) = Inr [6, 0]
   \<and> (0::nat) < length [''0xS'', ''0xR'']
   \<and> includeFee_of None \<noteq> Some True
   \<and> getAddressOf example_ledger ([''0xS'', ''0xR''] ! 0) = Inr (sender example_tx)
   \<and> wait example_tx = Inr example_receipt
   \<and> maxFeePerGas_of (Some \<lparr>maxFeePerGas = Some (BigInt 3)\<rparr>) = Some (BigInt 3)
   \<and> [6, 0 :: int] ! 0 = gasUsed example_receipt * 3"
  using getTxFees_gas_price [of example_ledger "[''0xS'', ''0xR'']" example_tx None
      "Some \<lparr>maxFeePerGas = Some (BigInt 3)\<rparr>" "[6, 0]" 0 example_receipt]
  by (simp add: example_defs balance_defs)

text \<open>
  An override of \<open>0n\<close> is not used: the fee is computed from the receipt's gas price 10,
  not from the override.
\<close>

theorem zero_override_counterexample:
  "getTxFees example_ledger [''0xS''] example_tx None (Some \<lparr>maxFeePerGas = Some (BigInt 0)\<rparr>)
     = Inr [gasUsed example_receipt * 10]
   \<and> getTxFees example_ledger [''0xS''] example_tx None (Some \<lparr>maxFeePerGas = Some (BigInt 0)\<rparr>)
     \<noteq> Inr [gasUsed example_receipt * 0]"
  by (simp add: example_defs balance_defs)

section \<open>Properties of the missing-libraries file\<close>

subsection \<open>The log of calls\<close>

lemma calls_logged [simp]: "calls (logged ev w) = calls w @ [ev]"
  by (simp add: logged_def)

lemma files_logged [simp]: "files (logged ev w) = files w"
  by (simp add: logged_def)

lemma held_logged [simp]: "held (logged ev w) = held w"
  by (simp add: logged_def)

lemma unreadable_logged [simp]: "unreadable (logged ev w) = unreadable w"
  by (simp add: logged_def)

lemma unwritable_logged [simp]: "unwritable (logged ev w) = unwritable w"
  by (simp add: logged_def)

lemma contended_logged [simp]: "contended (logged ev w) = contended w"
  by (simp add: logged_def)

lemma emitsI: "(\<And>w. \<exists>evs. calls (snd (m w)) = calls w @ evs \<and> list_all P evs) \<Longrightarrow> emits P m"
  by (simp add: emits_def)

lemma emitsD: "emits P m \<Longrightarrow> \<exists>evs. calls (snd (m w)) = calls w @ evs \<and> list_all P evs"
  by (simp add: emits_def)

lemma emits_returnIO: "emits P (returnIO x)"
  by (rule emitsI) (simp add: returnIO_def)

lemma emits_throwIO: "emits P (throwIO e)"
  by (rule emitsI) (simp add: throwIO_def)

lemma emits_bindIO:
  assumes m: "emits P m" and k: "\<And>x. emits P (k x)"
  shows "emits P (bindIO m k)"
proof (rule emitsI)
  fix w
  obtain r w1 where mw: "m w = (r, w1)" by (cases "m w")
  from emitsD [OF m, of w] mw obtain evs where
    evs: "calls w1 = calls w @ evs" "list_all P evs" by auto
  show "\<exists>evs. calls (snd (bindIO m k w)) = calls w @ evs \<and> list_all P evs"
  proof (cases r)
    case (Inl e)
    then show ?thesis using mw evs by (auto simp: bindIO_def)
  next
    case (Inr x)
    from emitsD [OF k, of x w1] obtain evs' where
      "calls (snd (k x w1)) = calls w1 @ evs'" "list_all P evs'" by auto
    then have "calls (snd (bindIO m k w)) = calls w @ (evs @ evs') \<and> list_all P (evs @ evs')"
      using Inr mw evs by (simp add: bindIO_def)
    then show ?thesis by blast
  qed
qed

lemma emits_pathExists: "P (PathExists p) \<Longrightarrow> emits P (pathExists p)"
  by (rule emitsI) (simp add: pathExists_def)

lemma emits_outputFile: "P (OutputFile p data) \<Longrightarrow> emits P (outputFile p data)"
  by (rule emitsI) (simp add: outputFile_def)

lemma emits_readJSON: "P (ReadJSON p) \<Longrightarrow> emits P (readJSON p)"
  by (rule emitsI) (simp add: readJSON_def)

lemma emits_lockfile_lock: "P (Lock p) \<Longrightarrow> emits P (lockfile_lock p n)"
  by (rule emitsI) (simp add: lockfile_lock_def)

lemma emits_spread: "emits P (spread v)"
  by (cases v) (simp_all add: spread_def emits_returnIO emits_throwIO)

text \<open>
  The calls of the \<open>try\<close> block are calls on the target, and the call adds one unlock
  after them.
\<close>

lemma emits_getOrCreateLibraries: "emits (on_target p) (getOrCreateLibraries p)"
  unfolding getOrCreateLibraries_def
  by (intro emits_bindIO emits_pathExists emits_readJSON)
     (simp_all add: on_target_def emits_outputFile emits_returnIO)

lemma emits_readMergeWrite: "emits (on_target p) (readMergeWrite p libs)"
  unfolding readMergeWrite_def Let_def
  by (intro emits_bindIO emits_getOrCreateLibraries emits_spread emits_outputFile)
     (simp add: on_target_def)

lemma emits_tryBlock: "emits (on_target p) (tryBlock p libs)"
  unfolding tryBlock_def
  by (intro emits_bindIO emits_getOrCreateLibraries emits_lockfile_lock emits_readMergeWrite)
     (simp add: on_target_def)

lemma calls_lockfile_unlock [simp]: "calls (snd (lockfile_unlock p w)) = calls w @ [Unlock p]"
  by (simp add: lockfile_unlock_def)

lemma calls_writeLibrariesToFile:
  "calls (snd (writeLibrariesToFile p libs w)) = calls (snd (tryBlock p libs w)) @ [Unlock p]"
proof -
  obtain r w1 where tb: "tryBlock p libs w = (r, w1)" by (cases "tryBlock p libs w")
  obtain r3 w3 where ul: "lockfile_unlock p w1 = (r3, w3)" by (cases "lockfile_unlock p w1")
  have "calls w3 = calls w1 @ [Unlock p]"
    using calls_lockfile_unlock [of p w1] ul by simp
  then show ?thesis
    using tb ul
    by (cases r; cases r3) (simp_all add: writeLibrariesToFile_def try_catch_finally_def throwIO_def)
qed

lemma calls_of_writeLibrariesToFile:
  "\<exists>evs. calls_of (writeLibrariesToFile p libs) w = evs @ [Unlock p] \<and> list_all (on_target p) evs
         \<and> calls_of (tryBlock p libs) w = evs"
proof -
  from emitsD [OF emits_tryBlock, of p libs w] obtain evs where
    evs: "calls (snd (tryBlock p libs w)) = calls w @ evs" "list_all (on_target p) evs" by auto
  then show ?thesis
    by (simp add: calls_of_def calls_writeLibrariesToFile)
qed

lemma on_target_in_place: "list_all (on_target p) evs \<Longrightarrow> in_place p (evs @ [Unlock p])"
  unfolding in_place_def
  by (induction evs) (auto simp: on_target_def split: event.splits)

lemma on_target_no_unlock: "list_all (on_target p) evs \<Longrightarrow> Unlock q \<notin> set evs"
  by (induction evs) (auto simp: on_target_def)

subsection \<open>Results and states\<close>

lemmas io_defs = bindIO_def returnIO_def throwIO_def

lemmas world_defs = fresh_world_def registry_world_def busy_world_def held_world_def

lemmas registry_defs = writeLibrariesToFile_def try_catch_finally_def tryBlock_def
  readMergeWrite_def getOrCreateLibraries_def io_defs pathExists_def readJSON_def outputFile_def
  lockfile_lock_def lockfile_unlock_def spread_def JSON_parse_def JSON_stringify_def logged_def
  calls_of_def

text \<open>What \<open>getOrCreateLibraries\<close> does, by the state of the file.\<close>

lemma getOrCreateLibraries_existing:
  "files w p = Some t \<Longrightarrow>
     getOrCreateLibraries p w =
       ((if p \<in> unreadable w then Inl EACCES else JSON_parse t),
        logged (ReadJSON p) (logged (PathExists p) w))"
  by (simp add: getOrCreateLibraries_def io_defs pathExists_def readJSON_def)

lemma getOrCreateLibraries_missing:
  "files w p = None \<Longrightarrow> p \<notin> unwritable w \<Longrightarrow>
     getOrCreateLibraries p w =
       ((if p \<in> unreadable w then Inl EACCES else Inr (JArray [])),
        logged (ReadJSON p) (logged (OutputFile p (JSON (JArray [])))
          ((logged (PathExists p) w)\<lparr>files := (files w)(p \<mapsto> JSON (JArray []))\<rparr>)))"
  by (simp add: getOrCreateLibraries_def io_defs pathExists_def readJSON_def outputFile_def
      JSON_parse_def)

lemma getOrCreateLibraries_unwritable:
  "files w p = None \<Longrightarrow> p \<in> unwritable w \<Longrightarrow>
     getOrCreateLibraries p w =
       (Inl EACCES, logged (OutputFile p (JSON (JArray []))) (logged (PathExists p) w))"
  by (simp add: getOrCreateLibraries_def io_defs pathExists_def readJSON_def outputFile_def)

lemma held_getOrCreateLibraries [simp]: "held (snd (getOrCreateLibraries p w)) = held w"
proof (cases "files w p")
  case None
  then show ?thesis
    by (cases "p \<in> unwritable w")
       (simp_all add: getOrCreateLibraries_unwritable getOrCreateLibraries_missing)
next
  case (Some t)
  then show ?thesis by (simp add: getOrCreateLibraries_existing)
qed

text \<open>The call on a file that holds an array, and on a path that has no file yet.\<close>

lemma writeLibrariesToFile_existing_array:
  assumes "files w p = Some (JSON (JArray E))"
    and "p \<notin> unreadable w" and "p \<notin> unwritable w" and "p \<notin> held w" and "contended w p \<le> 10"
  shows "writeLibrariesToFile p R w =
           (Inr (), w\<lparr>files := (files w)(p \<mapsto> JSON (JArray (E @ R))),
                       contended := (contended w)(p := 0),
                       calls := calls w @ [PathExists p, ReadJSON p, Lock p, PathExists p,
                         ReadJSON p, OutputFile p (JSON (JArray (E @ R))), Unlock p]\<rparr>)"
  using assms
  by (simp add: writeLibrariesToFile_def try_catch_finally_def tryBlock_def readMergeWrite_def
      getOrCreateLibraries_existing io_defs lockfile_lock_def lockfile_unlock_def spread_def
      outputFile_def JSON_parse_def JSON_stringify_def logged_def)

lemma writeLibrariesToFile_missing:
  assumes "files w p = None"
    and "p \<notin> unreadable w" and "p \<notin> unwritable w" and "p \<notin> held w" and "contended w p \<le> 10"
  shows "writeLibrariesToFile p R w =
           (Inr (), w\<lparr>files := (files w)(p \<mapsto> JSON (JArray R)),
                       contended := (contended w)(p := 0),
                       calls := calls w @ [PathExists p, OutputFile p (JSON (JArray [])),
                         ReadJSON p, Lock p, PathExists p, ReadJSON p,
                         OutputFile p (JSON (JArray R)), Unlock p]\<rparr>)"
  using assms
  by (simp add: registry_defs)

text \<open>The outcome of the call from the outcome of its \<open>try\<close> block and of the unlock.\<close>

lemma bindIO_Inr_iff:
  "bindIO m k w = (Inr y, w') \<longleftrightarrow> (\<exists>x w1. m w = (Inr x, w1) \<and> k x w1 = (Inr y, w'))"
  by (auto simp: bindIO_def split: prod.splits sum.splits)

lemma writeLibrariesToFile_result:
  assumes "tryBlock p libs w = (r, w1)"
  shows "writeLibrariesToFile p libs w =
           (case lockfile_unlock p w1 of
              (Inl e, w2) \<Rightarrow> (Inl e, w2)
            | (Inr u, w2) \<Rightarrow>
                ((case r of Inl c \<Rightarrow> Inl (ZkSyncSolcPluginError c) | Inr x \<Rightarrow> Inr x), w2))"
proof -
  obtain r3 w3 where ul: "lockfile_unlock p w1 = (r3, w3)" by (cases "lockfile_unlock p w1")
  show ?thesis
    using assms ul
    by (cases r; cases r3)
       (simp_all add: writeLibrariesToFile_def try_catch_finally_def throwIO_def)
qed

lemma lockfile_unlock_held:
  "p \<in> held w \<Longrightarrow> files w p \<noteq> None \<Longrightarrow>
     lockfile_unlock p w = (Inr (), logged (Unlock p) (w\<lparr>held := held w - {p}\<rparr>))"
  by (simp add: lockfile_unlock_def)

lemma lockfile_unlock_not_held:
  "p \<notin> held w \<Longrightarrow>
     lockfile_unlock p w =
       (Inl (if files w p = None then ENOENT else ENOTACQUIRED), logged (Unlock p) w)"
  by (simp add: lockfile_unlock_def)

lemma files_lockfile_unlock [simp]: "files (snd (lockfile_unlock p w)) = files w"
  by (simp add: lockfile_unlock_def)

lemma held_lockfile_lock_Inl:
  "fst (lockfile_lock p n w) = Inl c \<Longrightarrow> held (snd (lockfile_lock p n w)) = held w"
  by (auto simp: lockfile_lock_def split: if_splits)

lemma lockfile_lock_Inr:
  "lockfile_lock p n w = (Inr u, w') \<Longrightarrow> locked_file p w'"
  by (auto simp: lockfile_lock_def locked_file_def split: if_splits)

text \<open>What the steps under the lock keep: the lock, and the existence of the file.\<close>

lemma bindIO_keeps:
  assumes "\<And>w. locked_file p w \<Longrightarrow> locked_file p (snd (m w))"
    and "\<And>x w. locked_file p w \<Longrightarrow> locked_file p (snd (k x w))"
    and "locked_file p w"
  shows "locked_file p (snd (bindIO m k w))"
proof (cases "m w")
  case (Pair r w1)
  from assms(1) [OF assms(3)] Pair have "locked_file p w1" by simp
  with assms(2) Pair show ?thesis
    by (cases r) (simp_all add: bindIO_def)
qed

lemma getOrCreateLibraries_keeps:
  "locked_file p w \<Longrightarrow> locked_file p (snd (getOrCreateLibraries p w))"
  unfolding locked_file_def
  by (cases "files w p") (simp_all add: getOrCreateLibraries_existing)

lemma outputFile_keeps: "locked_file p w \<Longrightarrow> locked_file p (snd (outputFile p data w))"
  by (simp add: locked_file_def outputFile_def)

lemma spread_keeps: "locked_file p w \<Longrightarrow> locked_file p (snd (spread v w))"
  by (cases v) (simp_all add: spread_def returnIO_def throwIO_def)

lemma readMergeWrite_keeps: "locked_file p w \<Longrightarrow> locked_file p (snd (readMergeWrite p libs w))"
  unfolding readMergeWrite_def Let_def
  by (rule bindIO_keeps, erule getOrCreateLibraries_keeps,
      rule bindIO_keeps, erule spread_keeps, erule outputFile_keeps)

text \<open>A successful \<open>try\<close> block took the lock and ended with the write of the new array.\<close>

lemma tryBlock_Inr:
  assumes "tryBlock p libs w = (Inr u, w1)"
  shows "\<exists>pre existing. calls w1 = calls w @ pre @ [OutputFile p (JSON (JArray (existing @ libs)))]
           \<and> Lock p \<in> set pre
           \<and> files w1 p = Some (JSON (JArray (existing @ libs)))"
proof -
  from assms obtain x wa wb where
    g: "getOrCreateLibraries p w = (Inr x, wa)"
    and l: "lockfile_lock p 10 wa = (Inr (), wb)"
    and r: "readMergeWrite p libs wb = (Inr u, w1)"
    by (auto simp: tryBlock_def bindIO_Inr_iff)
  from r obtain y wc existing wd where
    g2: "getOrCreateLibraries p wb = (Inr y, wc)"
    and s: "spread y wc = (Inr existing, wd)"
    and o: "outputFile p (JSON (JArray (existing @ libs))) wd = (Inr u, w1)"
    by (auto simp: readMergeWrite_def bindIO_Inr_iff Let_def JSON_stringify_def)
  from emitsD [OF emits_getOrCreateLibraries, of p w] g obtain e1 where
    e1: "calls wa = calls w @ e1" by auto
  from l have e2: "calls wb = calls wa @ [Lock p]"
    by (auto simp: lockfile_lock_def split: if_splits)
  from emitsD [OF emits_getOrCreateLibraries, of p wb] g2 obtain e3 where
    e3: "calls wc = calls wb @ e3" by auto
  from s have e4: "wd = wc"
    by (cases y) (auto simp: spread_def returnIO_def throwIO_def)
  from o have e5: "calls w1 = calls wd @ [OutputFile p (JSON (JArray (existing @ libs)))]"
    and f: "files w1 p = Some (JSON (JArray (existing @ libs)))"
    by (auto simp: outputFile_def split: if_splits)
  have "calls w1 = calls w @ (e1 @ [Lock p] @ e3) @ [OutputFile p (JSON (JArray (existing @ libs)))]"
    by (simp add: e1 e2 e3 e4 e5)
  moreover have "Lock p \<in> set (e1 @ [Lock p] @ e3)" by simp
  ultimately show ?thesis using f by blast
qed

text \<open>A \<open>try\<close> block that fails before the lock is taken leaves the locks as they were.\<close>

lemma tryBlock_before_lock:
  assumes "fst (getOrCreateLibraries p w) = Inl c
         \<or> (\<exists>x. fst (getOrCreateLibraries p w) = Inr x
               \<and> fst (lockfile_lock p 10 (snd (getOrCreateLibraries p w))) = Inl c)"
  shows "fst (tryBlock p libs w) = Inl c \<and> held (snd (tryBlock p libs w)) = held w"
proof -
  obtain r wa where g: "getOrCreateLibraries p w = (r, wa)" by (cases "getOrCreateLibraries p w")
  have ha: "held wa = held w" using held_getOrCreateLibraries [of p w] g by simp
  show ?thesis
  proof (cases r)
    case (Inl e)
    with assms g ha show ?thesis by (simp add: tryBlock_def bindIO_def)
  next
    case (Inr x)
    obtain r2 wb where l: "lockfile_lock p 10 wa = (r2, wb)" by (cases "lockfile_lock p 10 wa")
    with assms g Inr have r2: "r2 = Inl c" by simp
    with l have "held wb = held wa" using held_lockfile_lock_Inl [of p 10 wa c] by simp
    with g Inr l r2 ha show ?thesis by (simp add: tryBlock_def bindIO_def)
  qed
qed

subsection \<open>Creating the file\<close>

text \<open>
  C9. \<open>getOrCreateLibraries\<close> is idempotent on the files: a second call leaves the files
  as the first call left them and returns what the first call returned. Where no file
  exists (and the path can be written) one call creates a file holding the empty array;
  on an existing file the content stays as it is.
\<close>

theorem getOrCreateLibraries_idempotent:
  "files (snd (getOrCreateLibraries p (snd (getOrCreateLibraries p w))))
     = files (snd (getOrCreateLibraries p w))
   \<and> fst (getOrCreateLibraries p (snd (getOrCreateLibraries p w)))
     = fst (getOrCreateLibraries p w)
   \<and> (files w p = None \<and> p \<notin> unwritable w \<longrightarrow>
        files (snd (getOrCreateLibraries p w)) = (files w)(p \<mapsto> JSON (JArray [])))
   \<and> (files w p \<noteq> None \<longrightarrow> files (snd (getOrCreateLibraries p w)) = files w)"
proof (cases "files w p")
  case None
  show ?thesis
  proof (cases "p \<in> unwritable w")
    case True
    with None show ?thesis
      by (simp add: getOrCreateLibraries_unwritable)
  next
    case False
    with None show ?thesis
      by (simp add: getOrCreateLibraries_missing getOrCreateLibraries_existing JSON_parse_def)
  qed
next
  case (Some t)
  then show ?thesis
    by (simp add: getOrCreateLibraries_existing)
qed

theorem getOrCreateLibraries_idempotent_witness:
  "files fresh_world ''libs.json'' = None \<and> ''libs.json'' \<notin> unwritable fresh_world
   \<and> files (snd (getOrCreateLibraries ''libs.json''
        (snd (getOrCreateLibraries ''libs.json'' fresh_world))))
      = [''libs.json'' \<mapsto> JSON (JArray [])]
   \<and> files (snd (getOrCreateLibraries ''libs.json'' fresh_world))
      = [''libs.json'' \<mapsto> JSON (JArray [])]
   \<and> files (registry_world (Malformed ''{'')) ''libs.json'' \<noteq> None
   \<and> files (snd (getOrCreateLibraries ''libs.json'' (registry_world (Malformed ''{''))))
      = files (registry_world (Malformed ''{''))"
  using getOrCreateLibraries_idempotent [of "''libs.json''" fresh_world]
    getOrCreateLibraries_idempotent [of "''libs.json''" "registry_world (Malformed ''{'')"]
  by (simp add: world_defs)

subsection \<open>Appending\<close>

text \<open>
  C4. When the path can be read and written and its lock can be taken within the retries:
  on a file that holds the array \<open>E\<close>, \<open>writeLibrariesToFile\<close> with the records \<open>R\<close>
  succeeds and leaves the file holding \<open>E\<close> followed by \<open>R\<close>, in that order and with
  every duplicate kept, and no other file changes; on a path with no file, appending
  \<open>[A]\<close> and then \<open>[B]\<close> leaves the file holding \<open>[A, B]\<close>.
\<close>

theorem writeLibrariesToFile_appends:
  assumes "p \<notin> unreadable w" and "p \<notin> unwritable w" and "p \<notin> held w"
    and "contended w p \<le> 10"
  shows "(files w p = Some (JSON (JArray E)) \<longrightarrow>
            fst (writeLibrariesToFile p R w) = Inr ()
          \<and> files (snd (writeLibrariesToFile p R w)) = (files w)(p \<mapsto> JSON (JArray (E @ R))))
       \<and> (files w p = None \<longrightarrow>
            fst (writeLibrariesToFile p [B] (snd (writeLibrariesToFile p [A] w))) = Inr ()
          \<and> files (snd (writeLibrariesToFile p [B] (snd (writeLibrariesToFile p [A] w))))
              = (files w)(p \<mapsto> JSON (JArray [A, B])))"
proof (intro conjI impI)
  assume "files w p = Some (JSON (JArray E))"
  from writeLibrariesToFile_existing_array [OF this assms]
  show "fst (writeLibrariesToFile p R w) = Inr ()"
    and "files (snd (writeLibrariesToFile p R w)) = (files w)(p \<mapsto> JSON (JArray (E @ R)))"
    by simp_all
next
  assume none: "files w p = None"
  define w1 where "w1 = snd (writeLibrariesToFile p [A] w)"
  from writeLibrariesToFile_missing [OF none assms, of "[A]"]
  have w1: "files w1 = (files w)(p \<mapsto> JSON (JArray [A]))" "unreadable w1 = unreadable w"
    "unwritable w1 = unwritable w" "held w1 = held w" "contended w1 p = 0"
    by (simp_all add: w1_def)
  have "writeLibrariesToFile p [B] w1 =
           (Inr (), w1\<lparr>files := (files w1)(p \<mapsto> JSON (JArray ([A] @ [B]))),
                       contended := (contended w1)(p := 0),
                       calls := calls w1 @ [PathExists p, ReadJSON p, Lock p, PathExists p,
                         ReadJSON p, OutputFile p (JSON (JArray ([A] @ [B]))), Unlock p]\<rparr>)"
    by (rule writeLibrariesToFile_existing_array) (simp_all add: w1 assms)
  then show "fst (writeLibrariesToFile p [B] (snd (writeLibrariesToFile p [A] w))) = Inr ()"
    and "files (snd (writeLibrariesToFile p [B] (snd (writeLibrariesToFile p [A] w))))
              = (files w)(p \<mapsto> JSON (JArray [A, B]))"
    by (simp_all add: w1 flip: w1_def)
qed

text \<open>The witness appends \<open>A\<close> and \<open>B\<close> to a fresh path, and \<open>A\<close> to a file that holds \<open>A\<close>.\<close>

theorem writeLibrariesToFile_appends_witness:
  "''libs.json'' \<notin> unreadable fresh_world \<and> ''libs.json'' \<notin> unwritable fresh_world
   \<and> ''libs.json'' \<notin> held fresh_world \<and> contended fresh_world ''libs.json'' \<le> 10
   \<and> files fresh_world ''libs.json'' = None
   \<and> files (snd (writeLibrariesToFile ''libs.json'' [JString ''B'']
        (snd (writeLibrariesToFile ''libs.json'' [JString ''A''] fresh_world)))) ''libs.json''
      = Some (JSON (JArray [JString ''A'', JString ''B'']))
   \<and> files (registry_world (JSON (JArray [JString ''A'']))) ''libs.json''
      = Some (JSON (JArray [JString ''A'']))
   \<and> fst (writeLibrariesToFile ''libs.json'' [JString ''A'']
        (registry_world (JSON (JArray [JString ''A''])))) = Inr ()
   \<and> files (snd (writeLibrariesToFile ''libs.json'' [JString ''A'']
        (registry_world (JSON (JArray [JString ''A'']))))) ''libs.json''
      = Some (JSON (JArray [JString ''A'', JString ''A'']))"
  using writeLibrariesToFile_appends [of "''libs.json''" fresh_world "[]" "[]"
      "JString ''B''" "JString ''A''"]
    writeLibrariesToFile_appends [of "''libs.json''" "registry_world (JSON (JArray [JString ''A'']))"
      "[JString ''A'']" "[JString ''A'']" "JString ''B''" "JString ''A''"]
  by (simp add: world_defs)

subsection \<open>How the new content is written\<close>

text \<open>
  C1, as the code has it. Every write of a call goes to the target path itself and
  nothing is renamed: no temporary path is involved. When the call succeeds, its last two
  calls are one write of the combined array to the target and the unlock, after the lock
  was taken.
\<close>

theorem writeLibrariesToFile_in_place:
  "in_place p (calls_of (writeLibrariesToFile p libs) w)
   \<and> (fst (writeLibrariesToFile p libs w) = Inr () \<longrightarrow>
        (\<exists>pre existing.
           calls_of (writeLibrariesToFile p libs) w
             = pre @ [OutputFile p (JSON (JArray (existing @ libs))), Unlock p]
         \<and> Lock p \<in> set pre
         \<and> files (snd (writeLibrariesToFile p libs w)) p = Some (JSON (JArray (existing @ libs)))))"
proof (intro conjI impI)
  from calls_of_writeLibrariesToFile [of p libs w]
  show "in_place p (calls_of (writeLibrariesToFile p libs) w)"
    by (auto intro: on_target_in_place)
next
  assume ok: "fst (writeLibrariesToFile p libs w) = Inr ()"
  obtain r w1 where tb: "tryBlock p libs w = (r, w1)" by (cases "tryBlock p libs w")
  obtain r3 w3 where ul: "lockfile_unlock p w1 = (r3, w3)" by (cases "lockfile_unlock p w1")
  from ok writeLibrariesToFile_result [OF tb] ul have r: "r = Inr ()" and r3: "r3 = Inr ()"
    by (cases r; cases r3; simp)+
  from tryBlock_Inr [OF tb [unfolded r]] obtain pre existing where
    c: "calls w1 = calls w @ pre @ [OutputFile p (JSON (JArray (existing @ libs)))]"
    and lk: "Lock p \<in> set pre"
    and f: "files w1 p = Some (JSON (JArray (existing @ libs)))"
    by blast
  have w3: "snd (writeLibrariesToFile p libs w) = w3"
    using writeLibrariesToFile_result [OF tb] ul r r3 by simp
  have "files w3 = files w1" using files_lockfile_unlock [of p w1] ul by simp
  moreover have "calls w3 = calls w1 @ [Unlock p]"
    using calls_lockfile_unlock [of p w1] ul by simp
  ultimately have "calls_of (writeLibrariesToFile p libs) w
             = pre @ [OutputFile p (JSON (JArray (existing @ libs))), Unlock p]"
    and "files (snd (writeLibrariesToFile p libs w)) p = Some (JSON (JArray (existing @ libs)))"
    using c f by (simp_all add: calls_of_def w3)
  with lk show "\<exists>pre existing.
           calls_of (writeLibrariesToFile p libs) w
             = pre @ [OutputFile p (JSON (JArray (existing @ libs))), Unlock p]
         \<and> Lock p \<in> set pre
         \<and> files (snd (writeLibrariesToFile p libs w)) p = Some (JSON (JArray (existing @ libs)))"
    by blast
qed

theorem writeLibrariesToFile_in_place_witness:
  "fst (writeLibrariesToFile ''libs.json'' [JString ''A''] (registry_world (JSON (JArray [])))) = Inr ()
   \<and> in_place ''libs.json''
        (calls_of (writeLibrariesToFile ''libs.json'' [JString ''A''])
           (registry_world (JSON (JArray []))))
   \<and> calls_of (writeLibrariesToFile ''libs.json'' [JString ''A''])
        (registry_world (JSON (JArray [])))
      = [PathExists ''libs.json'', ReadJSON ''libs.json'', Lock ''libs.json'',
         PathExists ''libs.json'', ReadJSON ''libs.json'']
        @ [OutputFile ''libs.json'' (JSON (JArray ([] @ [JString ''A'']))), Unlock ''libs.json'']"
  using writeLibrariesToFile_in_place [of "''libs.json''" "[JString ''A'']"
      "registry_world (JSON (JArray []))"]
  by (simp add: world_defs registry_defs)

text \<open>
  The calls of an append to an existing file: the target is written in place, and the
  specification's write through a temporary path and a rename does not occur.
\<close>

theorem writeLibrariesToFile_atomic_counterexample:
  "calls_of (writeLibrariesToFile ''libs.json'' [JString ''A''])
        (registry_world (JSON (JArray [])))
      = [PathExists ''libs.json'', ReadJSON ''libs.json'', Lock ''libs.json'',
         PathExists ''libs.json'', ReadJSON ''libs.json'',
         OutputFile ''libs.json'' (JSON (JArray [JString ''A''])), Unlock ''libs.json'']
   \<and> \<not> spec_atomic_write ''libs.json''
        (calls_of (writeLibrariesToFile ''libs.json'' [JString ''A''])
           (registry_world (JSON (JArray []))))"
  by (simp add: world_defs registry_defs spec_atomic_write_def)

subsection \<open>A file that does not hold an array\<close>

lemma tryBlock_malformed:
  "files w p = Some (Malformed s) \<Longrightarrow>
     tryBlock p libs w =
       (Inl (if p \<in> unreadable w then EACCES else SyntaxError),
        logged (ReadJSON p) (logged (PathExists p) w))"
  by (simp add: tryBlock_def bindIO_def getOrCreateLibraries_existing JSON_parse_def)

lemma writeLibrariesToFile_malformed_state:
  assumes "files w p = Some (Malformed s)"
  shows "writeLibrariesToFile p libs w =
           (Inl (if p \<in> held w
                 then ZkSyncSolcPluginError (if p \<in> unreadable w then EACCES else SyntaxError)
                 else ENOTACQUIRED),
            w\<lparr>held := held w - {p}, calls := calls w @ [PathExists p, ReadJSON p, Unlock p]\<rparr>)"
proof (cases "p \<in> held w")
  case True
  with assms show ?thesis
    by (simp add: writeLibrariesToFile_result [OF tryBlock_malformed [OF assms]]
        lockfile_unlock_def logged_def)
next
  case False
  then have "held w - {p} = held w" by simp
  with False assms show ?thesis
    by (simp add: writeLibrariesToFile_result [OF tryBlock_malformed [OF assms]]
        lockfile_unlock_def logged_def)
qed

lemma writeLibrariesToFile_not_iterable:
  assumes "files w p = Some (JSON v)" and "\<not> iterable v"
    and "p \<notin> unreadable w" and "p \<notin> held w" and "contended w p \<le> 10"
  shows "writeLibrariesToFile p libs w =
           (Inl (ZkSyncSolcPluginError TypeError),
            w\<lparr>contended := (contended w)(p := 0),
              calls := calls w @ [PathExists p, ReadJSON p, Lock p, PathExists p, ReadJSON p,
                Unlock p]\<rparr>)"
  using assms
  by (cases v)
     (simp_all add: iterable_def writeLibrariesToFile_def try_catch_finally_def tryBlock_def
        readMergeWrite_def getOrCreateLibraries_existing io_defs lockfile_lock_def
        lockfile_unlock_def spread_def JSON_parse_def logged_def)

text \<open>
  C5, as the code has it. When the text of the file is not valid JSON, the call fails at
  its first read, before the lock is requested: its calls are the existence test, the
  read and the unlock, so nothing is read under the lock. The files are left as they were
  and the lock of the path is not held afterwards, so that an append succeeds once the
  file holds an array again. When the file holds a JSON value that cannot be spread (an
  object, a number, a boolean or \<open>null\<close>), the merge under the lock fails: the call
  fails with the plugin error wrapping the \<open>TypeError\<close>, the files are left as they
  were and the lock is released.
\<close>

theorem writeLibrariesToFile_corrupt:
  "(files w p = Some (Malformed s) \<longrightarrow>
      (\<exists>e. fst (writeLibrariesToFile p libs w) = Inl e)
    \<and> calls_of (writeLibrariesToFile p libs) w = [PathExists p, ReadJSON p, Unlock p]
    \<and> files (snd (writeLibrariesToFile p libs w)) = files w
    \<and> p \<notin> held (snd (writeLibrariesToFile p libs w))
    \<and> (p \<notin> unreadable w \<and> p \<notin> unwritable w \<and> contended w p \<le> 10 \<longrightarrow>
         fst (writeLibrariesToFile p R
               ((snd (writeLibrariesToFile p libs w))
                  \<lparr>files := (files w)(p \<mapsto> JSON (JArray E))\<rparr>)) = Inr ()))
   \<and> (files w p = Some (JSON v) \<and> \<not> iterable v
        \<and> p \<notin> unreadable w \<and> p \<notin> held w \<and> contended w p \<le> 10 \<longrightarrow>
      fst (writeLibrariesToFile p libs w) = Inl (ZkSyncSolcPluginError TypeError)
    \<and> calls_of (writeLibrariesToFile p libs) w
        = [PathExists p, ReadJSON p, Lock p, PathExists p, ReadJSON p, Unlock p]
    \<and> files (snd (writeLibrariesToFile p libs w)) = files w
    \<and> p \<notin> held (snd (writeLibrariesToFile p libs w)))"
proof (intro conjI impI)
  assume m: "files w p = Some (Malformed s)"
  let ?w1 = "snd (writeLibrariesToFile p libs w)"
  let ?w2 = "?w1\<lparr>files := (files w)(p \<mapsto> JSON (JArray E))\<rparr>"
  note st = writeLibrariesToFile_malformed_state [OF m, of libs]
  show "\<exists>e. fst (writeLibrariesToFile p libs w) = Inl e"
    and "calls_of (writeLibrariesToFile p libs) w = [PathExists p, ReadJSON p, Unlock p]"
    and "files ?w1 = files w"
    and d: "p \<notin> held ?w1"
    by (simp_all add: st calls_of_def)
  assume ok: "p \<notin> unreadable w \<and> p \<notin> unwritable w \<and> contended w p \<le> 10"
  have "writeLibrariesToFile p R ?w2 =
         (Inr (), ?w2\<lparr>files := (files ?w2)(p \<mapsto> JSON (JArray (E @ R))),
                     contended := (contended ?w2)(p := 0),
                     calls := calls ?w2 @ [PathExists p, ReadJSON p, Lock p, PathExists p,
                       ReadJSON p, OutputFile p (JSON (JArray (E @ R))), Unlock p]\<rparr>)"
    using ok d by (intro writeLibrariesToFile_existing_array) (simp_all add: st)
  then show "fst (writeLibrariesToFile p R ?w2) = Inr ()" by simp
next
  assume h: "files w p = Some (JSON v) \<and> \<not> iterable v
        \<and> p \<notin> unreadable w \<and> p \<notin> held w \<and> contended w p \<le> 10"
  then have "files w p = Some (JSON v)" and "\<not> iterable v"
    and "p \<notin> unreadable w" and "p \<notin> held w" and "contended w p \<le> 10"
    by simp_all
  note st = writeLibrariesToFile_not_iterable [OF this, of libs]
  from h show "fst (writeLibrariesToFile p libs w) = Inl (ZkSyncSolcPluginError TypeError)"
    and "calls_of (writeLibrariesToFile p libs) w
        = [PathExists p, ReadJSON p, Lock p, PathExists p, ReadJSON p, Unlock p]"
    and "files (snd (writeLibrariesToFile p libs w)) = files w"
    and "p \<notin> held (snd (writeLibrariesToFile p libs w))"
    by (simp_all add: st calls_of_def)
qed

theorem writeLibrariesToFile_corrupt_witness:
  "files (registry_world (Malformed ''{'')) ''libs.json'' = Some (Malformed ''{'')
   \<and> fst (writeLibrariesToFile ''libs.json'' [JString ''A''] (registry_world (Malformed ''{'')))
       = Inl ENOTACQUIRED
   \<and> files (snd (writeLibrariesToFile ''libs.json'' [JString ''A'']
         (registry_world (Malformed ''{'')))) = files (registry_world (Malformed ''{''))
   \<and> ''libs.json'' \<notin> held (snd (writeLibrariesToFile ''libs.json'' [JString ''A'']
         (registry_world (Malformed ''{''))))
   \<and> ''libs.json'' \<notin> unreadable (registry_world (Malformed ''{''))
   \<and> ''libs.json'' \<notin> unwritable (registry_world (Malformed ''{''))
   \<and> contended (registry_world (Malformed ''{'')) ''libs.json'' \<le> 10
   \<and> fst (writeLibrariesToFile ''libs.json'' [JString ''B'']
        ((snd (writeLibrariesToFile ''libs.json'' [JString ''A''] (registry_world (Malformed ''{''))))
           \<lparr>files := (files (registry_world (Malformed ''{'')))
                        (''libs.json'' \<mapsto> JSON (JArray []))\<rparr>)) = Inr ()
   \<and> files (registry_world (JSON (JObject []))) ''libs.json'' = Some (JSON (JObject []))
   \<and> \<not> iterable (JObject [])
   \<and> fst (writeLibrariesToFile ''libs.json'' [JString ''A''] (registry_world (JSON (JObject []))))
       = Inl (ZkSyncSolcPluginError TypeError)"
  using writeLibrariesToFile_corrupt [of "registry_world (Malformed ''{'')" "''libs.json''"
      "''{''" "[JString ''A'']" "[JString ''B'']" "[]" "JNull"]
    writeLibrariesToFile_corrupt [of "registry_world (JSON (JObject []))" "''libs.json''"
      "''{''" "[JString ''A'']" "[]" "[]" "JObject []"]
  by (simp add: world_defs registry_defs iterable_def)

text \<open>
  On a file holding \<open>{\<close> the caller sees the error of the unlock, and the lock was never
  requested.
\<close>

theorem writeLibrariesToFile_corrupt_counterexample:
  "fst (writeLibrariesToFile ''libs.json'' [JString ''A''] (registry_world (Malformed ''{'')))
     = Inl ENOTACQUIRED
   \<and> calls_of (writeLibrariesToFile ''libs.json'' [JString ''A''])
        (registry_world (Malformed ''{''))
      = [PathExists ''libs.json'', ReadJSON ''libs.json'', Unlock ''libs.json'']"
  by (simp add: world_defs registry_defs)

subsection \<open>Failures under the lock\<close>

text \<open>
  C6. Let the first \<open>getOrCreateLibraries\<close> succeed and end in \<open>w1\<close>, the lock succeed
  and end in \<open>w2\<close>, and lines 204 to 206 run from \<open>w2\<close> to \<open>w3\<close> with the outcome \<open>r\<close>.
  Then the lock is held in \<open>w2\<close> and still in \<open>w3\<close>, and the call ends with the unlock
  made in \<open>w3\<close>, which succeeds: the final world is \<open>w3\<close> with the lock on the path
  removed from the held locks and the unlock logged. If \<open>r\<close> is a throw of \<open>e\<close>, the call
  fails with \<open>ZkSyncSolcPluginError e\<close>, the plugin's write error wrapping the cause; if
  \<open>r\<close> is a success the call succeeds. On both paths the calls of the call are those of
  the first \<open>getOrCreateLibraries\<close>, the lock, those of lines 204 to 206, and one
  unlock, which is the last call.
\<close>

theorem writeLibrariesToFile_wraps_and_unlocks:
  assumes "getOrCreateLibraries p w = (Inr x, w1)"
    and "lockfile_lock p 10 w1 = (Inr (), w2)"
    and "readMergeWrite p libs w2 = (r, w3)"
  shows "p \<in> held w2
       \<and> p \<in> held w3
       \<and> writeLibrariesToFile p libs w
           = ((case r of Inl e \<Rightarrow> Inl (ZkSyncSolcPluginError e) | Inr u \<Rightarrow> Inr u),
              logged (Unlock p) (w3\<lparr>held := held w3 - {p}\<rparr>))
       \<and> lockfile_unlock p w3 = (Inr (), snd (writeLibrariesToFile p libs w))
       \<and> fst (writeLibrariesToFile p libs w)
           = (case r of Inl e \<Rightarrow> Inl (ZkSyncSolcPluginError e) | Inr u \<Rightarrow> Inr u)
       \<and> held (snd (writeLibrariesToFile p libs w)) = held w3 - {p}
       \<and> p \<notin> held (snd (writeLibrariesToFile p libs w))
       \<and> (\<exists>pre mid. calls_of (writeLibrariesToFile p libs) w = pre @ [Lock p] @ mid @ [Unlock p]
            \<and> calls_of (getOrCreateLibraries p) w = pre
            \<and> calls_of (readMergeWrite p libs) w2 = mid
            \<and> Unlock p \<notin> set pre \<and> Unlock p \<notin> set mid)"
proof -
  from assms(2) have l2: "locked_file p w2" by (rule lockfile_lock_Inr)
  from readMergeWrite_keeps [OF l2, of libs] assms(3) have l3: "locked_file p w3" by simp
  have tb: "tryBlock p libs w = (r, w3)"
    using assms by (simp add: tryBlock_def bindIO_def)
  from l3 have ul: "lockfile_unlock p w3 = (Inr (), logged (Unlock p) (w3\<lparr>held := held w3 - {p}\<rparr>))"
    by (simp add: locked_file_def lockfile_unlock_held)
  have res: "writeLibrariesToFile p libs w
           = ((case r of Inl e \<Rightarrow> Inl (ZkSyncSolcPluginError e) | Inr u \<Rightarrow> Inr u),
              logged (Unlock p) (w3\<lparr>held := held w3 - {p}\<rparr>))"
    using writeLibrariesToFile_result [OF tb] ul by simp
  from emitsD [OF emits_getOrCreateLibraries, of p w] assms(1) obtain pre where
    pre: "calls w1 = calls w @ pre" "list_all (on_target p) pre" by auto
  from assms(2) have lk: "calls w2 = calls w1 @ [Lock p]"
    by (auto simp: lockfile_lock_def split: if_splits)
  from emitsD [OF emits_readMergeWrite, of p libs w2] assms(3) obtain mid where
    mid: "calls w3 = calls w2 @ mid" "list_all (on_target p) mid" by auto
  have c: "calls_of (writeLibrariesToFile p libs) w = pre @ [Lock p] @ mid @ [Unlock p]"
    by (simp add: calls_of_def res pre lk mid)
  have c1: "calls_of (getOrCreateLibraries p) w = pre"
    by (simp add: calls_of_def assms(1) pre)
  have c2: "calls_of (readMergeWrite p libs) w2 = mid"
    by (simp add: calls_of_def assms(3) mid)
  have nu: "Unlock p \<notin> set pre" "Unlock p \<notin> set mid"
    using pre(2) mid(2) by (auto dest: on_target_no_unlock)
  have h: "p \<in> held w2" "p \<in> held w3"
    using l2 l3 by (simp_all add: locked_file_def)
  show ?thesis
    using h res ul c c1 c2 nu by simp
qed

theorem writeLibrariesToFile_wraps_and_unlocks_witness:
  "getOrCreateLibraries ''libs.json'' (registry_world (JSON (JObject [])))
     = (Inr (JObject []),
        (registry_world (JSON (JObject [])))\<lparr>calls := [PathExists ''libs.json'', ReadJSON ''libs.json'']\<rparr>)
   \<and> fst (lockfile_lock ''libs.json'' 10
        (snd (getOrCreateLibraries ''libs.json'' (registry_world (JSON (JObject [])))))) = Inr ()
   \<and> fst (readMergeWrite ''libs.json'' [JString ''A'']
        (snd (lockfile_lock ''libs.json'' 10
          (snd (getOrCreateLibraries ''libs.json'' (registry_world (JSON (JObject [])))))))) = Inl TypeError
   \<and> ''libs.json'' \<in> held (snd (readMergeWrite ''libs.json'' [JString ''A'']
        (snd (lockfile_lock ''libs.json'' 10
          (snd (getOrCreateLibraries ''libs.json'' (registry_world (JSON (JObject [])))))))))
   \<and> fst (writeLibrariesToFile ''libs.json'' [JString ''A''] (registry_world (JSON (JObject []))))
       = Inl (ZkSyncSolcPluginError TypeError)
   \<and> ''libs.json'' \<notin> held (snd (writeLibrariesToFile ''libs.json'' [JString ''A''] (registry_world (JSON (JObject [])))))
   \<and> calls_of (writeLibrariesToFile ''libs.json'' [JString ''A'']) (registry_world (JSON (JObject [])))
       = [PathExists ''libs.json'', ReadJSON ''libs.json''] @ [Lock ''libs.json'']
         @ [PathExists ''libs.json'', ReadJSON ''libs.json''] @ [Unlock ''libs.json'']
   \<and> fst (getOrCreateLibraries ''libs.json'' (registry_world (JSON (JArray [])))) = Inr (JArray [])
   \<and> fst (lockfile_lock ''libs.json'' 10
        (snd (getOrCreateLibraries ''libs.json'' (registry_world (JSON (JArray [])))))) = Inr ()
   \<and> fst (readMergeWrite ''libs.json'' [JString ''A'']
        (snd (lockfile_lock ''libs.json'' 10
          (snd (getOrCreateLibraries ''libs.json'' (registry_world (JSON (JArray [])))))))) = Inr ()
   \<and> ''libs.json'' \<in> held (snd (readMergeWrite ''libs.json'' [JString ''A'']
        (snd (lockfile_lock ''libs.json'' 10
          (snd (getOrCreateLibraries ''libs.json'' (registry_world (JSON (JArray [])))))))))
   \<and> fst (writeLibrariesToFile ''libs.json'' [JString ''A''] (registry_world (JSON (JArray [])))) = Inr ()
   \<and> ''libs.json'' \<notin> held (snd (writeLibrariesToFile ''libs.json'' [JString ''A''] (registry_world (JSON (JArray [])))))
   \<and> calls_of (writeLibrariesToFile ''libs.json'' [JString ''A'']) (registry_world (JSON (JArray [])))
       = [PathExists ''libs.json'', ReadJSON ''libs.json''] @ [Lock ''libs.json'']
         @ [PathExists ''libs.json'', ReadJSON ''libs.json'',
            OutputFile ''libs.json'' (JSON (JArray [JString ''A'']))] @ [Unlock ''libs.json'']"
  using writeLibrariesToFile_wraps_and_unlocks [of "''libs.json''" "(registry_world (JSON (JObject [])))"
      "JObject []" "snd (getOrCreateLibraries ''libs.json'' (registry_world (JSON (JObject []))))"
      "snd (lockfile_lock ''libs.json'' 10
          (snd (getOrCreateLibraries ''libs.json'' (registry_world (JSON (JObject []))))))"
      "[JString ''A'']" "Inl TypeError"
      "snd (readMergeWrite ''libs.json'' [JString ''A'']
        (snd (lockfile_lock ''libs.json'' 10
          (snd (getOrCreateLibraries ''libs.json'' (registry_world (JSON (JObject []))))))))"]
    writeLibrariesToFile_wraps_and_unlocks [of "''libs.json''" "(registry_world (JSON (JArray [])))"
      "JArray []" "snd (getOrCreateLibraries ''libs.json'' (registry_world (JSON (JArray []))))"
      "snd (lockfile_lock ''libs.json'' 10
          (snd (getOrCreateLibraries ''libs.json'' (registry_world (JSON (JArray []))))))"
      "[JString ''A'']" "Inr ()"
      "snd (readMergeWrite ''libs.json'' [JString ''A'']
        (snd (lockfile_lock ''libs.json'' 10
          (snd (getOrCreateLibraries ''libs.json'' (registry_world (JSON (JArray []))))))))"]
  by (simp add: world_defs registry_defs)

subsection \<open>What the caller sees of a failure\<close>




subsection \<open>The unlock\<close>

text \<open>
  C10, as the code has it. Every call makes exactly one unlock call on the target path, as
  its last call. When the call fails before it has taken the lock (the first
  \<open>getOrCreateLibraries\<close> fails, or the lock is refused), the \<open>try\<close> block fails with
  that cause and leaves the held locks as they were, and the outcome depends on whether
  this process already holds the lock of the path. If it does not, the unlock is of a lock
  that is not held: its error, not the plugin error wrapping the cause, is what the caller
  sees, and the held locks stay as they were. If it does and the file exists, the unlock
  succeeds: the caller sees the plugin error wrapping the cause, and the lock taken by the
  other call is released. If it does and the file is missing, the unlock fails with
  \<open>ENOENT\<close>.
\<close>

theorem writeLibrariesToFile_unlocks_once:
  "(\<exists>evs. calls_of (writeLibrariesToFile p libs) w = evs @ [Unlock p] \<and> Unlock p \<notin> set evs)
   \<and> (fst (getOrCreateLibraries p w) = Inl c
        \<or> (\<exists>x. fst (getOrCreateLibraries p w) = Inr x
              \<and> fst (lockfile_lock p 10 (snd (getOrCreateLibraries p w))) = Inl c) \<longrightarrow>
        fst (tryBlock p libs w) = Inl c
      \<and> held (snd (tryBlock p libs w)) = held w
      \<and> (p \<notin> held w \<longrightarrow>
           fst (writeLibrariesToFile p libs w) = fst (lockfile_unlock p (snd (tryBlock p libs w)))
         \<and> (fst (writeLibrariesToFile p libs w) = Inl ENOTACQUIRED
            \<or> fst (writeLibrariesToFile p libs w) = Inl ENOENT)
         \<and> fst (writeLibrariesToFile p libs w) \<noteq> Inl (ZkSyncSolcPluginError c)
         \<and> held (snd (writeLibrariesToFile p libs w)) = held w)
      \<and> (p \<in> held w \<and> files (snd (tryBlock p libs w)) p \<noteq> None \<longrightarrow>
           fst (lockfile_unlock p (snd (tryBlock p libs w))) = Inr ()
         \<and> fst (writeLibrariesToFile p libs w) = Inl (ZkSyncSolcPluginError c)
         \<and> held (snd (writeLibrariesToFile p libs w)) = held w - {p})
      \<and> (p \<in> held w \<and> files (snd (tryBlock p libs w)) p = None \<longrightarrow>
           fst (writeLibrariesToFile p libs w) = Inl ENOENT
         \<and> held (snd (writeLibrariesToFile p libs w)) = held w))"
proof (intro conjI impI)
  from calls_of_writeLibrariesToFile [of p libs w]
  show "\<exists>evs. calls_of (writeLibrariesToFile p libs) w = evs @ [Unlock p] \<and> Unlock p \<notin> set evs"
    by (auto dest: on_target_no_unlock)
next
  assume h: "fst (getOrCreateLibraries p w) = Inl c
        \<or> (\<exists>x. fst (getOrCreateLibraries p w) = Inr x
              \<and> fst (lockfile_lock p 10 (snd (getOrCreateLibraries p w))) = Inl c)"
  obtain r w1 where tb: "tryBlock p libs w = (r, w1)" by (cases "tryBlock p libs w")
  from tryBlock_before_lock [OF h, of libs] tb have r: "r = Inl c" and hw: "held w1 = held w"
    by simp_all
  note res = writeLibrariesToFile_result [OF tb]
  show "fst (tryBlock p libs w) = Inl c" and "held (snd (tryBlock p libs w)) = held w"
    using tb r hw by simp_all
  {
    assume n: "p \<notin> held w"
    then have nh: "p \<notin> held w1" using hw by simp
    have eq: "writeLibrariesToFile p libs w =
        (Inl (if files w1 p = None then ENOENT else ENOTACQUIRED), logged (Unlock p) w1)"
      by (simp add: res lockfile_unlock_not_held [OF nh])
    show "fst (writeLibrariesToFile p libs w) = fst (lockfile_unlock p (snd (tryBlock p libs w)))"
      by (simp add: eq tb lockfile_unlock_not_held [OF nh])
    show "fst (writeLibrariesToFile p libs w) = Inl ENOTACQUIRED
         \<or> fst (writeLibrariesToFile p libs w) = Inl ENOENT"
      by (simp add: eq)
    show "fst (writeLibrariesToFile p libs w) \<noteq> Inl (ZkSyncSolcPluginError c)"
      by (simp add: eq)
    show "held (snd (writeLibrariesToFile p libs w)) = held w"
      by (simp add: eq hw)
  }
  {
    assume a: "p \<in> held w \<and> files (snd (tryBlock p libs w)) p \<noteq> None"
    then have "p \<in> held w1" and "files w1 p \<noteq> None" using hw tb by simp_all
    then have ul: "lockfile_unlock p w1 = (Inr (), logged (Unlock p) (w1\<lparr>held := held w1 - {p}\<rparr>))"
      by (rule lockfile_unlock_held)
    show "fst (lockfile_unlock p (snd (tryBlock p libs w))) = Inr ()"
      by (simp add: tb ul)
    show "fst (writeLibrariesToFile p libs w) = Inl (ZkSyncSolcPluginError c)"
      by (simp add: res ul r)
    show "held (snd (writeLibrariesToFile p libs w)) = held w - {p}"
      by (simp add: res ul hw)
  }
  {
    assume a: "p \<in> held w \<and> files (snd (tryBlock p libs w)) p = None"
    then have "files w1 p = None" using tb by simp
    then have ul: "lockfile_unlock p w1 = (Inl ENOENT, logged (Unlock p) w1)"
      by (simp add: lockfile_unlock_def)
    show "fst (writeLibrariesToFile p libs w) = Inl ENOENT"
      by (simp add: res ul)
    show "held (snd (writeLibrariesToFile p libs w)) = held w"
      by (simp add: res ul hw)
  }
qed

theorem writeLibrariesToFile_unlocks_once_witness:
  "fst (getOrCreateLibraries ''libs.json'' busy_world) = Inr (JArray [])
   \<and> fst (lockfile_lock ''libs.json'' 10 (snd (getOrCreateLibraries ''libs.json'' busy_world)))
       = Inl ELOCKED
   \<and> ''libs.json'' \<notin> held busy_world
   \<and> fst (writeLibrariesToFile ''libs.json'' [JString ''A''] busy_world) = Inl ENOTACQUIRED
   \<and> calls_of (writeLibrariesToFile ''libs.json'' [JString ''A'']) busy_world
       = [PathExists ''libs.json'', ReadJSON ''libs.json'', Lock ''libs.json''] @ [Unlock ''libs.json'']
   \<and> fst (getOrCreateLibraries ''libs.json'' held_world) = Inr (JArray [])
   \<and> fst (lockfile_lock ''libs.json'' 10 (snd (getOrCreateLibraries ''libs.json'' held_world)))
       = Inl ELOCKED
   \<and> ''libs.json'' \<in> held held_world
   \<and> files (snd (tryBlock ''libs.json'' [JString ''A''] held_world)) ''libs.json'' \<noteq> None
   \<and> fst (writeLibrariesToFile ''libs.json'' [JString ''A''] held_world)
       = Inl (ZkSyncSolcPluginError ELOCKED)
   \<and> held (snd (writeLibrariesToFile ''libs.json'' [JString ''A''] held_world))
       = held held_world - {''libs.json''}"
  using writeLibrariesToFile_unlocks_once [of "''libs.json''" "[JString ''A'']" busy_world ELOCKED]
    writeLibrariesToFile_unlocks_once [of "''libs.json''" "[JString ''A'']" held_world ELOCKED]
  by (simp add: world_defs registry_defs)

text \<open>
  The lock is refused because this process already holds it: the lock was never taken by
  the call, yet the unlock is of a held lock and succeeds, and the caller sees the wrapped
  \<open>ELOCKED\<close>.
\<close>

theorem writeLibrariesToFile_unlock_held_counterexample:
  "fst (getOrCreateLibraries ''libs.json'' held_world) = Inr (JArray [])
   \<and> fst (lockfile_lock ''libs.json'' 10 (snd (getOrCreateLibraries ''libs.json'' held_world)))
       = Inl ELOCKED
   \<and> calls_of (writeLibrariesToFile ''libs.json'' [JString ''A'']) held_world
       = [PathExists ''libs.json'', ReadJSON ''libs.json'', Lock ''libs.json'', Unlock ''libs.json'']
   \<and> ''libs.json'' \<in> held (snd (tryBlock ''libs.json'' [JString ''A''] held_world))
   \<and> fst (lockfile_unlock ''libs.json'' (snd (tryBlock ''libs.json'' [JString ''A''] held_world)))
       = Inr ()
   \<and> fst (writeLibrariesToFile ''libs.json'' [JString ''A''] held_world)
       = Inl (ZkSyncSolcPluginError ELOCKED)
   \<and> ''libs.json'' \<notin> held (snd (writeLibrariesToFile ''libs.json'' [JString ''A''] held_world))"
  by (simp add: world_defs registry_defs)

end
